theory Spec2Isabelle
  imports Main
begin

section \<open>The soundboard server of src/index.js\<close>

text \<open>
  The server keeps four module-level variables (\<open>soundMap\<close>, \<open>connection\<close>,
  \<open>currentProcess\<close>, \<open>isPlaying\<close>) and one shared audio player. The model threads
  them through every handler as one record. Beside them the record holds the parts of
  the environment the handlers act on: the sound directory (the stored sound files and
  the snapshot file \<open>mappings.json\<close>), the audio player of the voice library (the
  resource it holds, whether a stop was requested, and the listeners registered with
  \<open>player.once(AudioPlayerStatus.Idle, ...)\<close>), and the handlers that are suspended at
  an \<open>await\<close>.

  Node runs one piece of JavaScript at a time, from an event to the next \<open>await\<close> that
  has to wait. A handler is therefore modelled as the pieces between its awaits; what
  happens between two pieces of one handler is up to the order of events.

  A decode process is identified by a handle, numbered in spawn order; this stands for
  the identity of the object returned by \<open>spawn\<close>. The field \<open>trace\<close> records the
  effects of the handlers in the order in which the code performs them.
\<close>

subsection \<open>Data\<close>

type_synonym handle = nat

type_synonym bytes = "nat list"

record clip =
  filename :: string
  emoji :: string

text \<open>
  \<open>soundMap\<close> is a plain JavaScript object used as a dictionary. Its own properties
  are what \<open>JSON.stringify\<close> and \<open>res.json\<close> see; they are the field \<open>soundMap\<close> of the
  state. A lookup \<open>soundMap[key]\<close> also finds what the object inherits, and an
  assignment to the key \<open>__proto__\<close> replaces the prototype instead of creating a
  property; the prototype is the field \<open>soundMapProto\<close> (\<open>None\<close> for
  \<open>Object.prototype\<close> itself, \<open>Some c\<close> for a clip object, whose own prototype is
  \<open>Object.prototype\<close>).
\<close>

type_synonym soundmap = "string \<rightharpoonup> clip"

datatype js_value = Undefined | ClipV clip | StringV string | OtherV

definition object_prototype_names :: "string list" where
  "object_prototype_names =
     [''constructor'', ''__defineGetter__'', ''__defineSetter__'', ''hasOwnProperty'',
      ''__lookupGetter__'', ''__lookupSetter__'', ''isPrototypeOf'',
      ''propertyIsEnumerable'', ''toString'', ''valueOf'', ''__proto__'',
      ''toLocaleString'']"

text \<open>
  What \<open>Object.prototype\<close> contributes to a lookup on an object whose prototype reads
  as \<open>p\<close>: the accessor \<open>__proto__\<close> returns the prototype, the other names are
  functions.
\<close>

definition inherited :: "js_value \<Rightarrow> string \<Rightarrow> js_value" where
  "inherited p key =
     (if key = ''__proto__'' then p
      else if key \<in> set object_prototype_names then OtherV
      else Undefined)"

definition js_get :: "soundmap \<Rightarrow> clip option \<Rightarrow> string \<Rightarrow> js_value" where
  "js_get own proto key =
     (case own key of
        Some c \<Rightarrow> ClipV c
      | None \<Rightarrow>
          (case proto of
             None \<Rightarrow> inherited OtherV key
           | Some p \<Rightarrow>
               if key = ''filename'' then StringV (filename p)
               else if key = ''emoji'' then StringV (emoji p)
               else inherited (ClipV p) key))"

fun truthy :: "js_value \<Rightarrow> bool" where
  "truthy Undefined = False"
| "truthy (ClipV c) = True"
| "truthy (StringV x) = (x \<noteq> [])"
| "truthy OtherV = True"

text \<open>The property \<open>filename\<close> of a value; it is \<open>undefined\<close> for all but a clip.\<close>

fun filename_of :: "js_value \<Rightarrow> string option" where
  "filename_of (ClipV c) = Some (filename c)"
| "filename_of Undefined = None"
| "filename_of (StringV x) = None"
| "filename_of OtherV = None"

text \<open>
  The content of a snapshot file. The text that \<open>saveMap\<close> writes is
  \<open>JSON.stringify\<close> of the registry object, which is determined by the object's own
  properties: \<open>Complete m\<close> is that whole text for the registry \<open>m\<close>, \<open>Partial m k\<close>
  its first \<open>k\<close> bytes where these are not yet all, and \<open>Truncated\<close> a file that was
  opened for writing and holds nothing yet.
\<close>

datatype map_file = Absent | Truncated | Partial soundmap nat | Complete soundmap

datatype event =
    Spawn handle string
  | Kill handle
  | Detach handle
  | Cleared handle "handle option"
  | WriteSound string
  | WriteMap soundmap
  | Broadcast soundmap
  | Send soundmap
  | Listed soundmap

text \<open>
  A listener registered with \<open>player.once(AudioPlayerStatus.Idle, ...)\<close>: \<open>Finished h\<close>
  is the one of lines 231 to 235, registered by the play that spawned \<open>h\<close>;
  \<open>Resolve file\<close> is the one of line 265, which resolves the promise a play handler
  awaits before it goes on to play \<open>file\<close>.
\<close>

datatype listener = Finished handle | Resolve string

datatype response =
    SoundKeyNotFound string
  | FileDoesNotExist string
  | BotNotConnected
  | InternalServerError
  | Playing
  | Stopped
  | MissingFileOrName
  | FailedToSaveFile
  | RedirectRoot


datatype error = WriteError

text \<open>
  How a piece of a handler ends: with a response, suspended at an \<open>await\<close>, or with
  an exception that nothing in the handler catches, so that the promise of the handler
  is rejected and the handler has sent no response.
\<close>

datatype outcome = Answered response | Suspended | Rejected error

record uploaded_file =
  originalname :: string
  buffer :: bytes

text \<open>
  The parsed multipart request: \<open>req.file\<close> and the body fields \<open>name\<close> and \<open>emoji\<close>,
  each of which may be missing.
\<close>

record upload_req =
  upload_file :: "uploaded_file option"
  body_name :: "string option"
  body_emoji :: "string option"

datatype write_result = Written | Failed

text \<open>
  What the environment contributes to one upload: the value of \<open>crypto.randomUUID()\<close>,
  the function \<open>path.extname\<close>, whether each of the two \<open>fs.writeFile\<close> calls
  succeeds, and the index of the last byte of the snapshot text (the text is never
  empty). A write that fails is taken to leave its target as it was.
\<close>

record upload_env =
  randomUUID :: string
  extname :: "string \<Rightarrow> string"
  sound_write :: write_result
  map_write :: write_result
  text_last :: nat

text \<open>A play handler suspended at \<open>await fs.stat(soundPath)\<close>.\<close>

record pending_play =
  p_sound :: string
  p_file :: string

text \<open>An upload handler suspended at \<open>await fs.writeFile(filepath, file.buffer)\<close>.\<close>

record pending_upload =
  u_name :: string
  u_emoji :: "string option"
  u_file :: string
  u_buffer :: bytes
  u_env :: upload_env

text \<open>
  An upload handler suspended at \<open>await saveMap()\<close>: the registry that was serialised
  when \<open>saveMap\<close> was called, the index of the last byte of the text, and how the write
  will end.
\<close>

record pending_save =
  v_map :: soundmap
  v_last :: nat
  v_result :: write_result

record state =
  soundMap :: soundmap
  soundMapProto :: "clip option"
  soundFiles :: "string \<rightharpoonup> bytes"
  jsonFiles :: "string \<Rightarrow> map_file"
  connection :: bool
  currentProcess :: "handle option"
  isPlaying :: bool
  playerResource :: "handle option"
  playerStopping :: bool
  idleListeners :: "listener list"
  trace :: "event list"
  nextHandle :: handle
  statPending :: "pending_play list"
  soundWrites :: "pending_upload list"
  mapWrites :: "pending_save list"

subsection \<open>Files\<close>

definition MAP_FILE :: string where
  "MAP_FILE = ''mappings.json''"

definition mapFile :: "state \<Rightarrow> map_file" where
  "mapFile s = jsonFiles s MAP_FILE"

text \<open>
  \<open>fs.writeFile(path, text)\<close> opens \<open>path\<close> for writing, which empties it, and then
  writes the text into it; here it is written byte by byte, the bytes being numbered
  from \<open>0\<close> to \<open>n\<close>. The steps below are what
  the file system does for it. \<open>Rename\<close> is the step a write through a temporary file
  would end with.
\<close>

datatype fs_step =
    OpenTruncate string
  | Append string soundmap nat
  | Rename string string

fun appended :: "soundmap \<Rightarrow> nat \<Rightarrow> map_file \<Rightarrow> map_file" where
  "appended m n Truncated = (if n = 0 then Complete m else Partial m 1)"
| "appended m n (Partial m' k) = (if n \<le> k then Complete m else Partial m (Suc k))"
| "appended m n Absent = Absent"
| "appended m n (Complete m') = Complete m'"

fun run_step :: "fs_step \<Rightarrow> (string \<Rightarrow> map_file) \<Rightarrow> (string \<Rightarrow> map_file)" where
  "run_step (OpenTruncate p) fs = fs(p := Truncated)"
| "run_step (Append p m n) fs = fs(p := appended m n (fs p))"
| "run_step (Rename p q) fs = (fs(q := fs p))(p := Absent)"

definition run_steps :: "fs_step list \<Rightarrow> (string \<Rightarrow> map_file) \<Rightarrow> (string \<Rightarrow> map_file)" where
  "run_steps steps fs = foldl (\<lambda>g st. run_step st g) fs steps"

definition writeFile_steps :: "string \<Rightarrow> soundmap \<Rightarrow> nat \<Rightarrow> fs_step list" where
  "writeFile_steps p m n = OpenTruncate p # replicate (Suc n) (Append p m n)"

fun step_paths :: "fs_step \<Rightarrow> string list" where
  "step_paths (OpenTruncate p) = [p]"
| "step_paths (Append p m n) = [p]"
| "step_paths (Rename p q) = [p, q]"

fun is_rename :: "fs_step \<Rightarrow> bool" where
  "is_rename (OpenTruncate p) = False"
| "is_rename (Append p m n) = False"
| "is_rename (Rename p q) = True"

subsection \<open>Start-up (lines 32 to 39, 64 to 67)\<close>

text \<open>
  Start-up reads and parses the snapshot file, and starts from the empty registry when
  there is no file or its text does not parse. The text of an object ends with its
  closing brace, so no proper prefix of it parses.
\<close>

fun load_map :: "map_file \<Rightarrow> soundmap" where
  "load_map Absent = Map.empty"
| "load_map Truncated = Map.empty"
| "load_map (Partial m k) = Map.empty"
| "load_map (Complete m) = m"

definition startup :: "(string \<rightharpoonup> bytes) \<Rightarrow> map_file \<Rightarrow> state" where
  "startup fs mf =
     \<lparr>soundMap = load_map mf, soundMapProto = None, soundFiles = fs,
      jsonFiles = (\<lambda>p. Absent)(MAP_FILE := mf), connection = False,
      currentProcess = None, isPlaying = False, playerResource = None,
      playerStopping = False, idleListeners = [], trace = [], nextHandle = 0,
      statPending = [], soundWrites = [], mapWrites = []\<rparr>"

text \<open>
  The \<open>ready\<close> handler joins the voice channel and assigns \<open>connection\<close>. Whether the
  player then gets subscribed to the connection decides whether it ever plays and
  becomes idle; that is left to the order of events.
\<close>

definition bot_ready :: "state \<Rightarrow> state" where
  "bot_ready s = s\<lparr>connection := True\<rparr>"

subsection \<open>The audio player\<close>

text \<open>
  The player belongs to the voice library. What the handlers rely on: \<open>play\<close> makes
  the given resource the only one the player holds, letting go of the one it held;
  \<open>stop\<close> on an idle player does nothing and otherwise asks the player to become idle;
  when the player becomes idle (the stream ended, or a requested stop took effect) it
  lets go of its resource and calls every listener registered with \<open>once\<close>, in
  registration order, each one a single time. Whether and when the player becomes idle
  is an event of its own.
\<close>

definition player_play :: "handle \<Rightarrow> state \<Rightarrow> state" where
  "player_play h s =
     s\<lparr>playerResource := Some h, playerStopping := False,
       trace := (case playerResource s of
                   None \<Rightarrow> trace s
                 | Some old \<Rightarrow> trace s @ [Detach old])\<rparr>"

definition player_stop :: "state \<Rightarrow> state" where
  "player_stop s =
     (if playerResource s = None then s else s\<lparr>playerStopping := True\<rparr>)"

subsection \<open>Playback (lines 168 to 269)\<close>

definition lookup_sound :: "state \<Rightarrow> string \<Rightarrow> js_value" where
  "lookup_sound s key = js_get (soundMap s) (soundMapProto s) key"

text \<open>
  From the arrival of \<open>POST /play\<close> to \<open>await fs.stat(soundPath)\<close> (lines 170 to 181).
  \<open>path.join\<close> throws when \<open>soundData.filename\<close> is not a string; the handler's own
  \<open>catch\<close> (lines 238 to 241) turns that into the response
  \<open>Internal server error\<close>.
\<close>

definition play_request :: "string \<Rightarrow> state \<Rightarrow> outcome \<times> state" where
  "play_request sound s =
     (let soundData = lookup_sound s sound in
      if \<not> truthy soundData then (Answered (SoundKeyNotFound sound), s)
      else case filename_of soundData of
             None \<Rightarrow> (Answered InternalServerError, s)
           | Some file \<Rightarrow>
               (Suspended,
                s\<lparr>statPending := statPending s @ [\<lparr>p_sound = sound, p_file = file\<rparr>]\<rparr>))"

definition killed :: "handle \<Rightarrow> state \<Rightarrow> bool" where
  "killed h s = (Kill h \<in> set (trace s))"

definition kill_current :: "state \<Rightarrow> state" where
  "kill_current s =
     (case currentProcess s of
        None \<Rightarrow> s
      | Some h \<Rightarrow>
          if killed h s then s
          else s\<lparr>trace := trace s @ [Kill h], currentProcess := None\<rparr>)"

text \<open>
  \<open>stopCurrentPlayback\<close> (lines 256 to 269) returns a promise. The result says
  whether the promise is resolved on return, which is so when the player is idle;
  otherwise a listener is registered that resolves it when the player becomes idle.
  \<open>file\<close> is what the handler that awaits the promise will play when it goes on.
\<close>

definition stopCurrentPlayback :: "string \<Rightarrow> state \<Rightarrow> bool \<times> state" where
  "stopCurrentPlayback file s =
     (let s1 = kill_current s in
      if playerResource s1 = None then (True, s1)
      else (False, player_stop (s1\<lparr>idleListeners := idleListeners s1 @ [Resolve file]\<rparr>)))"

text \<open>
  Lines 202 to 237: the rest of the play handler, which has no further await.
  \<open>spawn\<close> and the calls on the player are taken to return normally.
\<close>

definition start_playback :: "string \<Rightarrow> state \<Rightarrow> state" where
  "start_playback file s =
     (let s2 = s\<lparr>isPlaying := True\<rparr>;
          h = nextHandle s2;
          s3 = s2\<lparr>currentProcess := Some h, nextHandle := Suc h,
                  trace := trace s2 @ [Spawn h file]\<rparr>;
          s4 = player_play h s3
      in s4\<lparr>idleListeners := idleListeners s4 @ [Finished h]\<rparr>)"

text \<open>
  From the settling of \<open>fs.stat\<close> on (lines 181 to 200). When the promise of
  \<open>stopCurrentPlayback\<close> is already resolved, the handler goes on before any other
  event is handled.
\<close>

definition play_after_stat :: "pending_play \<Rightarrow> state \<Rightarrow> outcome \<times> state" where
  "play_after_stat p s =
     (if soundFiles s (p_file p) = None then (Answered (FileDoesNotExist (p_file p)), s)
      else if \<not> connection s then (Answered BotNotConnected, s)
      else if isPlaying s then
        (case stopCurrentPlayback (p_file p) s of
           (True, s1) \<Rightarrow> (Answered Playing, start_playback (p_file p) s1)
         | (False, s1) \<Rightarrow> (Suspended, s1))
      else (Answered Playing, start_playback (p_file p) s))"

text \<open>
  The Idle listener of lines 231 to 235. The trace records which listener ran and
  what the slot held when it ran.
\<close>

fun run_listener :: "listener \<Rightarrow> state \<Rightarrow> state" where
  "run_listener (Finished h) s =
     s\<lparr>currentProcess := None, isPlaying := False,
       trace := trace s @ [Cleared h (currentProcess s)]\<rparr>"
| "run_listener (Resolve file) s = s"

fun resolved :: "listener list \<Rightarrow> string list" where
  "resolved [] = []"
| "resolved (Finished h # ls) = resolved ls"
| "resolved (Resolve file # ls) = file # resolved ls"

text \<open>
  The player becomes idle. The listeners run in registration order; the play handlers
  whose promise they resolved go on afterwards, in the same order, each to its
  response \<open>Playing\<close>.
\<close>

definition player_idle :: "state \<Rightarrow> state" where
  "player_idle s =
     (case playerResource s of
        None \<Rightarrow> s
      | Some h \<Rightarrow>
          foldl (\<lambda>t file. start_playback file t)
            (foldl (\<lambda>t l. run_listener l t)
               (s\<lparr>playerResource := None, playerStopping := False,
                  idleListeners := [], trace := trace s @ [Detach h]\<rparr>)
               (idleListeners s))
            (resolved (idleListeners s)))"

definition post_stop :: "state \<Rightarrow> response \<times> state" where
  "post_stop s =
     (let s1 = (case currentProcess s of
                  None \<Rightarrow> s
                | Some h \<Rightarrow> s\<lparr>trace := trace s @ [Kill h], currentProcess := None\<rparr>);
          s2 = player_stop s1
      in (Stopped, s2\<lparr>isPlaying := False\<rparr>))"

text \<open>
  The listener that the play handler attaches to the decode process it spawned
  (lines 214 to 219).
\<close>

definition on_process_error :: "state \<Rightarrow> state" where
  "on_process_error s = player_stop (s\<lparr>isPlaying := False, currentProcess := None\<rparr>)"

subsection \<open>Registry (lines 41 to 43, 117 to 166)\<close>

text \<open>The assignment \<open>soundMap[name] = clip\<close>.\<close>

definition put_clip :: "string \<Rightarrow> clip \<Rightarrow> state \<Rightarrow> state" where
  "put_clip n c s =
     (if soundMap s n = None \<and> n = ''__proto__'' then s\<lparr>soundMapProto := Some c\<rparr>
      else s\<lparr>soundMap := (soundMap s)(n \<mapsto> c)\<rparr>)"

definition get_mappings :: "state \<Rightarrow> soundmap" where
  "get_mappings s = soundMap s"

definition broadcastSoundMap :: "state \<Rightarrow> state" where
  "broadcastSoundMap s = s\<lparr>trace := trace s @ [Broadcast (soundMap s)]\<rparr>"

text \<open>A client connects to the WebSocket server (lines 126 to 133).\<close>

definition ws_connect :: "state \<Rightarrow> state" where
  "ws_connect s = s\<lparr>trace := trace s @ [Send (soundMap s)]\<rparr>"

definition stored_name :: "uploaded_file \<Rightarrow> upload_env \<Rightarrow> string" where
  "stored_name f env =
     randomUUID env @
       (if extname env (originalname f) = [] then ''.mp3''
        else extname env (originalname f))"

definition stored_emoji :: "string option \<Rightarrow> string" where
  "stored_emoji e = (case e of None \<Rightarrow> [] | Some x \<Rightarrow> if x = [] then [] else x)"

text \<open>Lines 137 to 147: what the handler holds when it starts to write the sound file.\<close>

definition upload_entry :: "upload_req \<Rightarrow> upload_env \<Rightarrow> pending_upload option" where
  "upload_entry req env =
     (case upload_file req of
        None \<Rightarrow> None
      | Some f \<Rightarrow>
          (case body_name req of
             None \<Rightarrow> None
           | Some n \<Rightarrow>
               if n = [] then None
               else Some \<lparr>u_name = n, u_emoji = body_emoji req, u_file = stored_name f env,
                          u_buffer = buffer f, u_env = env\<rparr>))"

definition upload_request :: "upload_req \<Rightarrow> upload_env \<Rightarrow> state \<Rightarrow> outcome \<times> state" where
  "upload_request req env s =
     (case upload_entry req env of
        None \<Rightarrow> (Answered MissingFileOrName, s)
      | Some u \<Rightarrow> (Suspended, s\<lparr>soundWrites := soundWrites s @ [u]\<rparr>))"

text \<open>
  \<open>saveMap\<close> serialises the registry as it is when it is called and starts to write
  the text; its caller awaits the write.
\<close>

definition saveMap :: "upload_env \<Rightarrow> state \<Rightarrow> state" where
  "saveMap env s =
     s\<lparr>mapWrites := mapWrites s @
         [\<lparr>v_map = soundMap s, v_last = text_last env, v_result = map_write env\<rparr>]\<rparr>"

text \<open>
  From the settling of the write of the sound file to \<open>await saveMap()\<close> (lines 149 to
  157).
\<close>

definition upload_after_write :: "pending_upload \<Rightarrow> state \<Rightarrow> outcome \<times> state" where
  "upload_after_write u s =
     (case sound_write (u_env u) of
        Failed \<Rightarrow> (Answered FailedToSaveFile, s)
      | Written \<Rightarrow>
          (let s1 = s\<lparr>soundFiles := (soundFiles s)(u_file u \<mapsto> u_buffer u),
                       trace := trace s @ [WriteSound (u_file u)]\<rparr>;
               s2 = put_clip (u_name u)
                      \<lparr>filename = u_file u, emoji = stored_emoji (u_emoji u)\<rparr> s1
           in (Suspended, saveMap (u_env u) s2)))"

text \<open>
  From the settling of the write of the snapshot on (lines 157 to 160). Nothing catches
  a failure of that write.
\<close>

definition upload_after_save :: "pending_save \<Rightarrow> state \<Rightarrow> outcome \<times> state" where
  "upload_after_save v s =
     (case v_result v of
        Failed \<Rightarrow> (Rejected WriteError, s)
      | Written \<Rightarrow>
          (Answered RedirectRoot,
           broadcastSoundMap
             (s\<lparr>jsonFiles := run_steps (writeFile_steps MAP_FILE (v_map v) (v_last v))
                               (jsonFiles s),
                trace := trace s @ [WriteMap (v_map v)]\<rparr>)))"

text \<open>An upload whose two writes settle before any other event is handled.\<close>

definition post_upload :: "upload_req \<Rightarrow> upload_env \<Rightarrow> state \<Rightarrow> outcome \<times> state" where
  "post_upload req env s =
     (case upload_entry req env of
        None \<Rightarrow> (Answered MissingFileOrName, s)
      | Some u \<Rightarrow>
          (case upload_after_write u s of
             (Suspended, s2) \<Rightarrow>
               upload_after_save (last (mapWrites s2))
                 (s2\<lparr>mapWrites := butlast (mapWrites s2)\<rparr>)
           | (Answered r, s2) \<Rightarrow> (Answered r, s2)
           | (Rejected e, s2) \<Rightarrow> (Rejected e, s2)))"

text \<open>The process dies when the write of the snapshot has done \<open>k\<close> of its steps.\<close>

definition crash_in_save :: "nat \<Rightarrow> pending_save \<Rightarrow> state \<Rightarrow> state" where
  "crash_in_save k v s =
     s\<lparr>jsonFiles := run_steps (take k (writeFile_steps MAP_FILE (v_map v) (v_last v)))
                       (jsonFiles s)\<rparr>"

definition restart :: "state \<Rightarrow> state" where
  "restart s = startup (soundFiles s) (mapFile s)"

subsection \<open>Sequences of events\<close>

text \<open>
  The events the server handles: the arrival of a request, the settling of a file
  operation that a handler awaits, the player becoming idle, the bot becoming ready,
  a decode process emitting \<open>error\<close>, a client connecting. \<open>Play\<close> and \<open>Upload\<close> are
  arrivals; \<open>StatSettled k\<close> and \<open>MapWriteSettled k\<close> settle the \<open>k\<close>-th of the
  operations in flight, \<open>SoundWriteSettled file\<close> the write of that file.
\<close>

datatype op =
    Play string
  | StatSettled nat
  | Stop
  | PlayerIdle
  | BotReady
  | ProcessError handle
  | Upload upload_req upload_env
  | SoundWriteSettled string
  | MapWriteSettled nat
  | WsConnect
  | GetMappings

fun take_write ::
  "string \<Rightarrow> pending_upload list \<Rightarrow> (pending_upload \<times> pending_upload list) option" where
  "take_write file [] = None"
| "take_write file (u # us) =
     (if u_file u = file then Some (u, us)
      else case take_write file us of
             None \<Rightarrow> None
           | Some (v, vs) \<Rightarrow> Some (v, u # vs))"

definition without :: "nat \<Rightarrow> 'a list \<Rightarrow> 'a list" where
  "without k xs = take k xs @ drop (Suc k) xs"

fun exec :: "op \<Rightarrow> state \<Rightarrow> state" where
  "exec (Play sound) s = snd (play_request sound s)"
| "exec (StatSettled k) s =
     (if k < length (statPending s)
      then snd (play_after_stat (statPending s ! k)
                  (s\<lparr>statPending := without k (statPending s)\<rparr>))
      else s)"
| "exec Stop s = snd (post_stop s)"
| "exec PlayerIdle s = player_idle s"
| "exec BotReady s = bot_ready s"
| "exec (ProcessError h) s = (if h < nextHandle s then on_process_error s else s)"
| "exec (Upload req env) s = snd (upload_request req env s)"
| "exec (SoundWriteSettled file) s =
     (case take_write file (soundWrites s) of
        None \<Rightarrow> s
      | Some (u, rest) \<Rightarrow> snd (upload_after_write u (s\<lparr>soundWrites := rest\<rparr>)))"
| "exec (MapWriteSettled k) s =
     (if k < length (mapWrites s)
      then snd (upload_after_save (mapWrites s ! k)
                  (s\<lparr>mapWrites := without k (mapWrites s)\<rparr>))
      else s)"
| "exec WsConnect s = ws_connect s"
| "exec GetMappings s = s\<lparr>trace := trace s @ [Listed (get_mappings s)]\<rparr>"

definition run :: "op list \<Rightarrow> state \<Rightarrow> state" where
  "run ops s = foldl (\<lambda>t x. exec x t) s ops"

text \<open>The Orchestrator is idle when the slot is empty.\<close>

definition orch_idle :: "state \<Rightarrow> bool" where
  "orch_idle s = (currentProcess s = None \<and> \<not> isPlaying s)"



text \<open>
  Whenever the slot holds a process, the player holds that process and the Idle
  listener registered with it is still registered.
\<close>

definition slot_is_players :: "state \<Rightarrow> bool" where
  "slot_is_players s =
     (case currentProcess s of
        None \<Rightarrow> True
      | Some h \<Rightarrow> playerResource s = Some h \<and> Finished h \<in> set (idleListeners s))"

subsection \<open>A small board\<close>

definition siren :: clip where
  "siren = \<lparr>filename = ''a1.mp3'', emoji = ''!''\<rparr>"

definition horn :: clip where
  "horn = \<lparr>filename = ''b2.wav'', emoji = []\<rparr>"

definition board :: soundmap where
  "board = [''siren'' \<mapsto> siren, ''horn'' \<mapsto> horn]"

definition disk :: "string \<rightharpoonup> bytes" where
  "disk = [''a1.mp3'' \<mapsto> [1, 2, 3], ''b2.wav'' \<mapsto> [4]]"

definition beep :: uploaded_file where
  "beep = \<lparr>originalname = ''beep.ogg'', buffer = [7, 7]\<rparr>"

definition beep_req :: upload_req where
  "beep_req = \<lparr>upload_file = Some beep, body_name = Some ''siren'', body_emoji = None\<rparr>"

definition proto_req :: upload_req where
  "proto_req =
     \<lparr>upload_file = Some beep, body_name = Some ''__proto__'', body_emoji = None\<rparr>"

definition env_ok :: upload_env where
  "env_ok = \<lparr>randomUUID = ''c3'', extname = (\<lambda>n. ''.ogg''),
             sound_write = Written, map_write = Written, text_last = 5\<rparr>"

definition env_disk_full :: upload_env where
  "env_disk_full = \<lparr>randomUUID = ''c3'', extname = (\<lambda>n. ''.ogg''),
             sound_write = Written, map_write = Failed, text_last = 5\<rparr>"

definition env_no_sound :: upload_env where
  "env_no_sound = \<lparr>randomUUID = ''c3'', extname = (\<lambda>n. ''.ogg''),
             sound_write = Failed, map_write = Written, text_last = 5\<rparr>"

text \<open>
  A session is playing; a second play arrives and waits for the player to become idle;
  a third play arrives while the second still waits.
\<close>

definition overlap :: "op list" where
  "overlap =
     [BotReady, Play ''siren'', StatSettled 0,
      Play ''horn'', StatSettled 0, Play ''siren'', StatSettled 0]"

text \<open>The same with the clips exchanged: \<open>horn\<close> is playing, then \<open>siren\<close>, then \<open>horn\<close>.\<close>

definition overlap_from_horn :: "op list" where
  "overlap_from_horn =
     [BotReady, Play ''horn'', StatSettled 0,
      Play ''siren'', StatSettled 0, Play ''horn'', StatSettled 0]"

text \<open>An upload of \<open>siren\<close> whose sound file is written and whose snapshot is being written.\<close>

definition saving :: state where
  "saving =
     run [Upload beep_req env_ok, SoundWriteSettled ''c3.ogg''] (startup disk (Complete board))"

section \<open>Properties\<close>

lemmas handler_defs = run_def startup_def bot_ready_def play_request_def play_after_stat_def
  post_stop_def start_playback_def stopCurrentPlayback_def kill_current_def killed_def
  player_play_def player_stop_def player_idle_def lookup_sound_def js_get_def
  without_def Let_def

lemmas data_defs = board_def disk_def siren_def horn_def

lemmas upload_defs = post_upload_def upload_entry_def upload_request_def
  upload_after_write_def upload_after_save_def saveMap_def put_clip_def
  broadcastSoundMap_def stored_name_def stored_emoji_def Let_def

lemmas upload_data_defs = beep_def beep_req_def proto_req_def env_ok_def env_disk_full_def
  env_no_sound_def

subsection \<open>Overlapping play requests\<close>

text \<open>
  Claim C1 says that a play request that finds a session active stops the old
  session's process before the state with exactly one active process is established,
  for every sequence of play and stop operations. The code does not do so when two play
  requests overlap. Here \<open>siren\<close> is playing (process 0); a play of \<open>horn\<close> kills
  process 0 and waits for the player to become idle; a play of \<open>siren\<close> arrives while
  it waits and waits as well. When the player becomes idle both handlers go on: the
  first spawns process 1, the second spawns process 2 while process 1 is running, and
  process 1 is never sent a termination signal.
\<close>

theorem overlapping_plays_two_processes:
  "trace (run (overlap @ [PlayerIdle]) (startup disk (Complete board)))
     = [Spawn 0 ''a1.mp3'', Kill 0, Detach 0, Cleared 0 None,
        Spawn 1 ''b2.wav'', Spawn 2 ''a1.mp3'', Detach 1] \<and>
   currentProcess (run (overlap @ [PlayerIdle]) (startup disk (Complete board))) = Some 2 \<and>
   Kill 1 \<notin> set (trace (run (overlap @ [PlayerIdle]) (startup disk (Complete board))))"
  by (simp add: overlap_def handler_defs data_defs)

text \<open>
  Claim C2 says that after \<open>play(A)\<close> immediately followed by \<open>play(B)\<close> the process for
  A has been signalled to terminate before the process for B is spawned. With \<open>horn\<close>
  playing, let A be \<open>siren\<close> and B be \<open>horn\<close>, B arriving while A waits for the player
  to become idle. Until the player becomes idle neither request is answered. When it
  does, the process for A (1) and then the process for B (2) are spawned, and the
  process for A is never signalled.
\<close>

theorem overlapping_preemption_unsignalled:
  "resolved (idleListeners (run overlap_from_horn (startup disk (Complete board))))
     = [''a1.mp3'', ''b2.wav''] \<and>
   trace (run overlap_from_horn (startup disk (Complete board)))
     = [Spawn 0 ''b2.wav'', Kill 0] \<and>
   trace (run (overlap_from_horn @ [PlayerIdle]) (startup disk (Complete board)))
     = [Spawn 0 ''b2.wav'', Kill 0, Detach 0, Cleared 0 None,
        Spawn 1 ''a1.mp3'', Spawn 2 ''b2.wav'', Detach 1] \<and>
   currentProcess (run (overlap_from_horn @ [PlayerIdle]) (startup disk (Complete board)))
     = Some 2 \<and>
   Kill 1 \<notin> set (trace (run (overlap_from_horn @ [PlayerIdle])
                           (startup disk (Complete board))))"
  by (simp add: overlap_from_horn_def handler_defs data_defs)

subsection \<open>Completion notifications\<close>

lemma slot_iff:
  "slot_is_players s =
     (\<forall>h. currentProcess s = Some h \<longrightarrow>
          playerResource s = Some h \<and> Finished h \<in> set (idleListeners s))"
  by (simp add: slot_is_players_def split: option.splits)






lemma slot_kill_current: "slot_is_players s \<Longrightarrow> slot_is_players (kill_current s)"
  by (auto simp: slot_iff kill_current_def split: option.splits)












subsection \<open>Errors of a play request\<close>













subsection \<open>Stop\<close>

text \<open>
  Claim C5. The stop operation answers \<open>Stopped\<close> in every state. When the
  Orchestrator is idle it stays idle and nothing is signalled or spawned; when the
  player is idle as well the state is exactly the same. Stopping twice is the same as
  stopping once.
\<close>

theorem stop_total_idempotent:
  "fst (post_stop s) = Stopped \<and>
   (orch_idle s \<longrightarrow>
      orch_idle (snd (post_stop s)) \<and> trace (snd (post_stop s)) = trace s \<and>
      (playerResource s = None \<longrightarrow> snd (post_stop s) = s)) \<and>
   snd (post_stop (snd (post_stop s))) = snd (post_stop s)"
  by (auto simp: post_stop_def orch_idle_def player_stop_def Let_def split: option.splits)

theorem stop_total_idempotent_witness:
  "orch_idle (startup disk (Complete board)) \<and>
   playerResource (startup disk (Complete board)) = None \<and>
   post_stop (startup disk (Complete board)) = (Stopped, startup disk (Complete board))"
  using stop_total_idempotent [of "startup disk (Complete board)"]
  by (simp add: startup_def orch_idle_def prod_eq_iff)

subsection \<open>Stored sound files\<close>













subsection \<open>The snapshot file\<close>

lemma run_steps_snoc: "run_steps (steps @ [st]) fs = run_step st (run_steps steps fs)"
  by (simp add: run_steps_def)

lemma run_steps_Cons: "run_steps (st # steps) fs = run_steps steps (run_step st fs)"
  by (simp add: run_steps_def)

lemma run_appends:
  "j \<le> Suc n \<Longrightarrow>
     run_steps (replicate j (Append p m n)) (fs(p := Truncated)) =
       fs(p := (if j = 0 then Truncated else if n < j then Complete m else Partial m j))"
proof (induction j)
  case 0
  then show ?case by (simp add: run_steps_def)
next
  case (Suc j)
  define c where "c = (if j = 0 then Truncated else if n < j then Complete m else Partial m j)"
  have "j \<le> Suc n" using Suc.prems by simp
  from Suc.IH [OF this]
  have ih: "run_steps (replicate j (Append p m n)) (fs(p := Truncated)) = fs(p := c)"
    unfolding c_def .
  have "replicate (Suc j) (Append p m n) = replicate j (Append p m n) @ [Append p m n]"
    by (simp add: replicate_append_same)
  then have "run_steps (replicate (Suc j) (Append p m n)) (fs(p := Truncated)) =
      run_step (Append p m n) (run_steps (replicate j (Append p m n)) (fs(p := Truncated)))"
    by (simp only: run_steps_snoc)
  also have "\<dots> = run_step (Append p m n) (fs(p := c))"
    by (simp only: ih)
  also have "\<dots> = fs(p := appended m n c)"
    by simp
  also have "appended m n c = (if n < Suc j then Complete m else Partial m (Suc j))"
    using Suc.prems by (auto simp: c_def)
  finally show ?case by simp
qed

lemma writeFile_complete: "run_steps (writeFile_steps p m n) fs = fs(p := Complete m)"
  using run_appends [of "Suc n" n p m fs]
  by (simp add: writeFile_steps_def run_steps_Cons del: replicate.simps)

lemma writeFile_interrupted:
  assumes "0 < k" "k \<le> Suc n"
  shows "run_steps (take k (writeFile_steps p m n)) fs =
           fs(p := (if k = 1 then Truncated else Partial m (k - 1)))"
proof -
  obtain j where k: "k = Suc j" using assms(1) by (cases k) auto
  with assms(2) have j: "j \<le> n" by simp
  have "take k (writeFile_steps p m n) = OpenTruncate p # replicate j (Append p m n)"
    using j by (simp add: k writeFile_steps_def min_def del: replicate.simps)
  then have "run_steps (take k (writeFile_steps p m n)) fs =
      run_steps (replicate j (Append p m n)) (fs(p := Truncated))"
    by (simp add: run_steps_Cons)
  also have "\<dots> = fs(p := (if j = 0 then Truncated else if n < j then Complete m else Partial m j))"
    using j by (intro run_appends) simp
  finally show ?thesis using j by (simp add: k)
qed

lemma writeFile_in_place:
  "st \<in> set (writeFile_steps p m n) \<Longrightarrow> step_paths st = [p] \<and> \<not> is_rename st"
  by (auto simp: writeFile_steps_def)

text \<open>
  Claim C8, as stated, fails. The snapshot on disk holds \<open>siren\<close> and an upload is
  writing a new one. When the process dies after the first step of that write, the
  file has been emptied and nothing written: the snapshot that was valid is gone, and
  the next start-up begins with an empty registry.
\<close>

theorem interrupted_save_counterexample:
  "mapFile saving = Complete board \<and>
   load_map (mapFile saving) ''siren'' = Some siren \<and>
   length (mapWrites saving) = 1 \<and>
   mapFile (crash_in_save 1 (hd (mapWrites saving)) saving) = Truncated \<and>
   soundMap (restart (crash_in_save 1 (hd (mapWrites saving)) saving)) ''siren'' = None"
proof -
  have a: "mapFile saving = Complete board" "length (mapWrites saving) = 1"
    by (simp_all add: saving_def run_def startup_def upload_defs upload_data_defs
        mapFile_def)
  have b: "load_map (Complete board) ''siren'' = Some siren"
    by (simp add: board_def)
  have c: "mapFile (crash_in_save 1 (hd (mapWrites saving)) saving) = Truncated"
    by (simp add: crash_in_save_def mapFile_def writeFile_steps_def run_steps_def)
  then have d: "soundMap (restart (crash_in_save 1 (hd (mapWrites saving)) saving)) ''siren''
      = None"
    by (simp add: restart_def startup_def)
  from a b c d show ?thesis by simp
qed

text \<open>
  Claim C8, amended. The snapshot is written in place: every step of the write that
  \<open>saveMap\<close> starts acts on \<open>mappings.json\<close> itself and none is a rename, so there is
  no temporary file. The completed write leaves the whole new text in the file. A
  write that is interrupted after its first step and before its last leaves the file
  empty or holding a proper prefix of the new text, whatever it held before; no other
  file is touched, and the next start-up begins with an empty registry.
\<close>

theorem snapshot_written_in_place:
  "(\<forall>st \<in> set (writeFile_steps p m n). step_paths st = [p] \<and> \<not> is_rename st) \<and>
   run_steps (writeFile_steps p m n) fs = fs(p := Complete m) \<and>
   (0 < k \<and> k \<le> Suc n \<longrightarrow>
      run_steps (take k (writeFile_steps p m n)) fs =
        fs(p := (if k = 1 then Truncated else Partial m (k - 1)))) \<and>
   (v_result v = Written \<longrightarrow>
      jsonFiles (snd (upload_after_save v s)) = (jsonFiles s)(MAP_FILE := Complete (v_map v))) \<and>
   (0 < k \<and> k \<le> Suc (v_last v) \<longrightarrow>
      jsonFiles (crash_in_save k v s) =
        (jsonFiles s)(MAP_FILE := (if k = 1 then Truncated else Partial (v_map v) (k - 1))) \<and>
      soundFiles (crash_in_save k v s) = soundFiles s \<and>
      soundMap (restart (crash_in_save k v s)) = Map.empty)"
proof -
  have a: "\<forall>st \<in> set (writeFile_steps p m n). step_paths st = [p] \<and> \<not> is_rename st"
    using writeFile_in_place by blast
  have b: "run_steps (writeFile_steps p m n) fs = fs(p := Complete m)"
    by (rule writeFile_complete)
  have c: "0 < k \<and> k \<le> Suc n \<longrightarrow>
      run_steps (take k (writeFile_steps p m n)) fs =
        fs(p := (if k = 1 then Truncated else Partial m (k - 1)))"
    using writeFile_interrupted by blast
  have d: "v_result v = Written \<longrightarrow>
      jsonFiles (snd (upload_after_save v s)) = (jsonFiles s)(MAP_FILE := Complete (v_map v))"
    by (simp add: upload_after_save_def broadcastSoundMap_def writeFile_complete)
  have e: "0 < k \<and> k \<le> Suc (v_last v) \<longrightarrow>
      jsonFiles (crash_in_save k v s) =
        (jsonFiles s)(MAP_FILE := (if k = 1 then Truncated else Partial (v_map v) (k - 1))) \<and>
      soundFiles (crash_in_save k v s) = soundFiles s \<and>
      soundMap (restart (crash_in_save k v s)) = Map.empty"
  proof
    assume k: "0 < k \<and> k \<le> Suc (v_last v)"
    then have w: "run_steps (take k (writeFile_steps MAP_FILE (v_map v) (v_last v))) (jsonFiles s) =
        (jsonFiles s)(MAP_FILE := (if k = 1 then Truncated else Partial (v_map v) (k - 1)))"
      using writeFile_interrupted by blast
    then show "jsonFiles (crash_in_save k v s) =
        (jsonFiles s)(MAP_FILE := (if k = 1 then Truncated else Partial (v_map v) (k - 1))) \<and>
      soundFiles (crash_in_save k v s) = soundFiles s \<and>
      soundMap (restart (crash_in_save k v s)) = Map.empty"
      by (simp add: crash_in_save_def restart_def startup_def mapFile_def)
  qed
  from a b c d e show ?thesis by blast
qed

theorem snapshot_written_in_place_witness:
  "v_result (hd (mapWrites saving)) = Written \<and>
   (0::nat) < 3 \<and> 3 \<le> Suc (v_last (hd (mapWrites saving))) \<and>
   OpenTruncate MAP_FILE \<in> set (writeFile_steps MAP_FILE board 5) \<and>
   \<not> is_rename (OpenTruncate MAP_FILE) \<and>
   mapFile (crash_in_save 3 (hd (mapWrites saving)) saving)
     = Partial (v_map (hd (mapWrites saving))) 2 \<and>
   mapFile (snd (upload_after_save (hd (mapWrites saving)) saving))
     = Complete (v_map (hd (mapWrites saving)))"
proof -
  have h: "v_result (hd (mapWrites saving)) = Written" "v_last (hd (mapWrites saving)) = 5"
    by (simp_all add: saving_def run_def startup_def upload_defs upload_data_defs)
  have i: "OpenTruncate MAP_FILE \<in> set (writeFile_steps MAP_FILE board 5)"
    by (simp add: writeFile_steps_def)
  from snapshot_written_in_place
    [where p = MAP_FILE and m = board and n = 5 and k = 3 and fs = "jsonFiles saving"
       and v = "hd (mapWrites saving)" and s = saving] h i
  show ?thesis by (simp add: mapFile_def)
qed

subsection \<open>Uploads\<close>

text \<open>
  Claim C6 says that a failure to persist is surfaced to the caller as a write error
  while the registry goes on to return the new value. When the write of the snapshot
  fails, the code assigns the entry but nothing catches the failure: the handler ends
  with its promise rejected, without having sent a response and without a broadcast.
  The failure of the write of the sound file, three statements earlier, is caught and
  answered.
\<close>

theorem failed_save_is_not_answered:
  "fst (post_upload beep_req env_disk_full (startup disk (Complete board)))
     = Rejected WriteError \<and>
   trace (snd (post_upload beep_req env_disk_full (startup disk (Complete board))))
     = [WriteSound ''c3.ogg''] \<and>
   soundMap (snd (post_upload beep_req env_disk_full (startup disk (Complete board)))) ''siren''
     = Some \<lparr>filename = ''c3.ogg'', emoji = []\<rparr> \<and>
   mapFile (snd (post_upload beep_req env_disk_full (startup disk (Complete board))))
     = Complete board \<and>
   post_upload beep_req env_no_sound (startup disk (Complete board))
     = (Answered FailedToSaveFile, startup disk (Complete board))"
  by (simp add: upload_defs upload_data_defs startup_def mapFile_def)

text \<open>
  Claim C9 says that after an upload without an emoji the registry and the snapshot
  return the clip with the empty string as emoji. For the name \<open>__proto__\<close> the
  assignment sets the prototype of the registry object: the upload is answered with
  the redirect and \<open>soundMap[name]\<close> reads the clip with the empty emoji, but the
  listing, the persisted snapshot and the broadcast do not hold it.
\<close>

theorem proto_upload_is_not_listed:
  "body_emoji proto_req = None \<and>
   fst (post_upload proto_req env_ok (startup disk (Complete board)))
     = Answered RedirectRoot \<and>
   lookup_sound (snd (post_upload proto_req env_ok (startup disk (Complete board))))
       ''__proto__''
     = ClipV \<lparr>filename = ''c3.ogg'', emoji = []\<rparr> \<and>
   get_mappings (snd (post_upload proto_req env_ok (startup disk (Complete board))))
       ''__proto__'' = None \<and>
   get_mappings (snd (post_upload proto_req env_ok (startup disk (Complete board))))
     = board \<and>
   load_map (mapFile (snd (post_upload proto_req env_ok (startup disk (Complete board)))))
       ''__proto__'' = None \<and>
   last (trace (snd (post_upload proto_req env_ok (startup disk (Complete board)))))
     = Broadcast board"
proof -
  have w: "run_steps (writeFile_steps MAP_FILE board 5) ((\<lambda>p. Absent)(MAP_FILE := Complete board))
      = (\<lambda>p. Absent)(MAP_FILE := Complete board)"
    by (simp add: writeFile_complete)
  have b: "board ''__proto__'' = None"
    by (simp add: board_def)
  show ?thesis
    by (simp add: upload_defs upload_data_defs startup_def mapFile_def lookup_sound_def
        js_get_def inherited_def get_mappings_def w b)
qed





end
